theory Spec2Isabelle
  imports Main
begin

section \<open>The configuration file\<close>

text \<open>
  The file \<^verbatim>\<open>astro.config.mjs\<close> exports one value:
  \<^verbatim>\<open>
  export default defineConfig({
    site: "https://redyeti.dev",
    integrations: [tailwind(), icon()],
  });
  \<close>
  An object literal is an ordered list of fields, each a name and a value. The two
  integration entries are calls, without arguments, of the default exports of the
  packages imported under the names \<^verbatim>\<open>tailwind\<close> and \<^verbatim>\<open>icon\<close>; what such a
  call returns belongs to those packages, so an entry is kept as the call itself.
\<close>

datatype integration = Invoke string

datatype field_value = Str string | Integrations "integration list"

type_synonym config_record = "(string \<times> field_value) list"

datatype error = ConfigurationError | ParseError | MissingLayoutError

definition config_object :: config_record where
  "config_object =
     [(''site'', Str ''https://redyeti.dev''),
      (''integrations'', Integrations [Invoke ''tailwind'', Invoke ''icon''])]"

definition site_of :: "config_record \<Rightarrow> string option" where
  "site_of cfg = (case map_of cfg ''site'' of Some (Str u) \<Rightarrow> Some u | _ \<Rightarrow> None)"

definition integrations_of :: "config_record \<Rightarrow> integration list option" where
  "integrations_of cfg =
     (case map_of cfg ''integrations'' of Some (Integrations ints) \<Rightarrow> Some ints | _ \<Rightarrow> None)"

subsection \<open>Absolute URLs\<close>

text \<open>\<open>split_at c s\<close> cuts \<open>s\<close> at the first occurrence of \<open>c\<close>, which it drops.\<close>

fun split_at :: "char \<Rightarrow> string \<Rightarrow> (string \<times> string) option" where
  "split_at c [] = None"
| "split_at c (x # xs) =
     (if x = c then Some ([], xs)
      else (case split_at c xs of None \<Rightarrow> None | Some (l, r) \<Rightarrow> Some (x # l, r)))"

definition alpha :: "char \<Rightarrow> bool" where
  "alpha c = (c \<in> set ''abcdefghijklmnopqrstuvwxyzABCDEFGHIJKLMNOPQRSTUVWXYZ'')"

definition digit :: "char \<Rightarrow> bool" where
  "digit c = (c \<in> set ''0123456789'')"

definition scheme_char :: "char \<Rightarrow> bool" where
  "scheme_char c = (alpha c \<or> digit c \<or> c \<in> set ''+-.'')"

definition authority_char :: "char \<Rightarrow> bool" where
  "authority_char c = (alpha c \<or> digit c \<or> c \<in> set ''-._~!$&()*+,;=:@%[]'' \<or> c = CHR 0x27)"

definition url_char :: "char \<Rightarrow> bool" where
  "url_char c = (authority_char c \<or> c \<in> set ''/?#'')"

definition delimiter :: "char \<Rightarrow> bool" where
  "delimiter c = (c \<in> set ''/?#'')"

text \<open>
  Modelled from the spec: the syntactic check of the site URL, which the sources of the
  repository do not contain (the spec: ``absolute URL string, non-empty'', ``must be a
  syntactically valid absolute URL''). The grammar is the one of an absolute URI with an
  authority: a scheme (a letter, then letters, digits, \<^verbatim>\<open>+\<close>, \<^verbatim>\<open>-\<close>, \<^verbatim>\<open>.\<close>), a colon,
  two slashes, a non-empty authority up to the first \<^verbatim>\<open>/\<close>, \<^verbatim>\<open>?\<close> or \<^verbatim>\<open>#\<close>, and
  then only characters that a URL may hold.
\<close>

definition is_absolute_url :: "string \<Rightarrow> bool" where
  "is_absolute_url u =
     (case split_at CHR '':'' u of
        None \<Rightarrow> False
      | Some (scheme, rest) \<Rightarrow>
          (case scheme of [] \<Rightarrow> False | c # cs \<Rightarrow> alpha c \<and> list_all scheme_char cs) \<and>
          take 2 rest = ''//'' \<and>
          takeWhile (\<lambda>c. \<not> delimiter c) (drop 2 rest) \<noteq> [] \<and>
          list_all authority_char (takeWhile (\<lambda>c. \<not> delimiter c) (drop 2 rest)) \<and>
          list_all url_char (dropWhile (\<lambda>c. \<not> delimiter c) (drop 2 rest)))"

subsection \<open>The configuration loader\<close>

text \<open>
  Modelled from the spec: the data-model invariant of a Site Configuration, a record with
  a site URL (``absolute URL string, non-empty'') and an ordered list of integrations,
  none of them unknown. Which integrations the build framework knows is not this
  repository's: the list \<open>known\<close> is a parameter.
\<close>

definition valid_config :: "integration list \<Rightarrow> config_record \<Rightarrow> bool" where
  "valid_config known cfg =
     ((case site_of cfg of None \<Rightarrow> False | Some u \<Rightarrow> u \<noteq> [] \<and> is_absolute_url u) \<and>
      (case integrations_of cfg of None \<Rightarrow> False | Some ints \<Rightarrow> list_all (\<lambda>i. i \<in> set known) ints))"

text \<open>
  Modelled from the spec: \<^verbatim>\<open>defineConfig\<close>, imported from the build framework and
  not among the sources of the repository, as the Configuration Loader of section 4.1: ``an invalid or
  missing site URL fails fast with a configuration error'', ``unknown integration entries
  are rejected'', ``configuration error: malformed or missing required configuration
  field'', and otherwise the record is made available as it is.
\<close>

definition defineConfig :: "integration list \<Rightarrow> config_record \<Rightarrow> error + config_record" where
  "defineConfig known cfg =
     (case map_of cfg ''site'' of
        None \<Rightarrow> Inl ConfigurationError
      | Some (Integrations _) \<Rightarrow> Inl ConfigurationError
      | Some (Str u) \<Rightarrow>
          if \<not> is_absolute_url u then Inl ConfigurationError
          else (case map_of cfg ''integrations'' of
                  None \<Rightarrow> Inl ConfigurationError
                | Some (Str _) \<Rightarrow> Inl ConfigurationError
                | Some (Integrations ints) \<Rightarrow>
                    if list_all (\<lambda>i. i \<in> set known) ints then Inr cfg
                    else Inl ConfigurationError))"

text \<open>The value the configuration file exports.\<close>

definition astro_config :: "integration list \<Rightarrow> error + config_record" where
  "astro_config known = defineConfig known config_object"

section \<open>The content file\<close>

text \<open>
  The post is a text file, modelled as the list of its lines. Its first five lines are the
  front-matter block; the lines after it (the markup body, lines 6 to 261 of the file) are
  raw text that nothing below looks into, so the body is a parameter of the file.
\<close>

type_synonym content_file = "string list"

definition post_front_matter :: "string list" where
  "post_front_matter =
     [''---'',
      ''title: Collecting code coverage in Node.js'',
      ''layout: ../../layouts/PostLayout.astro'',
      ''pubDate: November 2nd, 2024'',
      ''---'']"

definition post_file :: "string list \<Rightarrow> content_file" where
  "post_file markup = post_front_matter @ markup"

record content_document =
  frontMatter :: "(string \<times> string) list"
  body :: "string list"

subsection \<open>The content document resolver\<close>

text \<open>
  Modelled from the spec: the front-matter block of section 6, ``a front-matter block
  (key-value pairs) followed by a markup body''. The block opens with a line \<^verbatim>\<open>---\<close>
  and runs to the next such line; each line between is a key, a colon and a value, the
  value without the blanks that follow the colon. A line without a colon, a file that
  does not open with the delimiter and a block that is never closed are malformed.
\<close>

definition parse_entry :: "string \<Rightarrow> (string \<times> string) option" where
  "parse_entry l =
     (case split_at CHR '':'' l of
        None \<Rightarrow> None
      | Some (k, v) \<Rightarrow> Some (k, dropWhile (\<lambda>c. c = CHR '' '') v))"

fun parse_entries :: "string list \<Rightarrow> ((string \<times> string) list \<times> string list) option" where
  "parse_entries [] = None"
| "parse_entries (l # ls) =
     (if l = ''---'' then Some ([], ls)
      else (case parse_entry l of
              None \<Rightarrow> None
            | Some kv \<Rightarrow>
                (case parse_entries ls of
                   None \<Rightarrow> None
                 | Some (kvs, rest) \<Rightarrow> Some (kv # kvs, rest))))"

definition parse_front_matter ::
    "content_file \<Rightarrow> error + ((string \<times> string) list \<times> string list)" where
  "parse_front_matter f =
     (case f of
        [] \<Rightarrow> Inl ParseError
      | l # ls \<Rightarrow>
          if l = ''---'' then
            (case parse_entries ls of None \<Rightarrow> Inl ParseError | Some r \<Rightarrow> Inr r)
          else Inl ParseError)"

text \<open>
  A well-formed front-matter block, as a file is written: the opening delimiter, one line
  \<^verbatim>\<open>key: value\<close> for each pair, the closing delimiter, then the body. The key holds no
  colon and the value does not start with a blank, so that the line reads back in one way.
\<close>

definition entry_line :: "string \<times> string \<Rightarrow> string" where
  "entry_line kv = fst kv @ '': '' @ snd kv"

definition well_formed_entry :: "string \<times> string \<Rightarrow> bool" where
  "well_formed_entry kv =
     (CHR '':'' \<notin> set (fst kv) \<and> (case snd kv of [] \<Rightarrow> True | c # cs \<Rightarrow> c \<noteq> CHR '' ''))"

definition front_matter_file :: "(string \<times> string) list \<Rightarrow> string list \<Rightarrow> content_file" where
  "front_matter_file kvs markup = ''---'' # map entry_line kvs @ ''---'' # markup"

text \<open>
  Modelled from the spec: the Content Document Resolver of section 4.2, which ``produces
  a Content Document or fails with a ParseError (malformed front-matter block) or
  MissingLayoutError (referenced layout identifier not found in the layout registry)''.
  The layout registry \<open>layouts\<close> is the list of the layout identifiers that exist; the
  layout files are not among the sources, so it is a parameter.
\<close>

definition resolve :: "string list \<Rightarrow> content_file \<Rightarrow> error + content_document" where
  "resolve layouts f =
     (case parse_front_matter f of
        Inl e \<Rightarrow> Inl e
      | Inr (fm, markup) \<Rightarrow>
          (case map_of fm ''layout'' of
             None \<Rightarrow> Inl MissingLayoutError
           | Some l \<Rightarrow>
               if l \<in> set layouts then Inr \<lparr>frontMatter = fm, body = markup\<rparr>
               else Inl MissingLayoutError))"

fun resolve_all :: "string list \<Rightarrow> content_file list \<Rightarrow> error + content_document list" where
  "resolve_all layouts [] = Inr []"
| "resolve_all layouts (f # fs) =
     (case resolve layouts f of
        Inl e \<Rightarrow> Inl e
      | Inr d \<Rightarrow>
          (case resolve_all layouts fs of Inl e \<Rightarrow> Inl e | Inr ds \<Rightarrow> Inr (d # ds)))"

subsection \<open>The pipeline\<close>

text \<open>
  Modelled from the spec: the flow of section 2, ``load configuration, discover content
  documents, merge each document's front-matter with a layout template, emit a rendered
  page'', under the policy of section 7: every error is fatal and ``a build either fully
  succeeds or fails outright''. What a layout renders is the framework's; a page keeps
  the layout it is rendered with, the metadata and the body.
\<close>

record page =
  page_layout :: string
  page_metadata :: "(string \<times> string) list"
  page_body :: "string list"

definition render :: "content_document \<Rightarrow> page" where
  "render d =
     \<lparr>page_layout = (case map_of (frontMatter d) ''layout'' of None \<Rightarrow> [] | Some l \<Rightarrow> l),
      page_metadata = frontMatter d,
      page_body = body d\<rparr>"

definition build ::
    "integration list \<Rightarrow> string list \<Rightarrow> config_record \<Rightarrow> content_file list \<Rightarrow> error + page list" where
  "build known layouts cfg files =
     (case defineConfig known cfg of
        Inl e \<Rightarrow> Inl e
      | Inr c \<Rightarrow>
          (case resolve_all layouts files of
             Inl e \<Rightarrow> Inl e
           | Inr ds \<Rightarrow> Inr (map render ds)))"

text \<open>The pages a build emits: none when it fails.\<close>

definition emitted :: "error + page list \<Rightarrow> page list" where
  "emitted r = (case r of Inl e \<Rightarrow> [] | Inr ps \<Rightarrow> ps)"

section \<open>Auxiliary facts\<close>

lemma is_absolute_url_site: "is_absolute_url ''https://redyeti.dev''"
  by (simp add: is_absolute_url_def alpha_def digit_def scheme_char_def authority_char_def
      url_char_def delimiter_def)

lemma defineConfig_config_object:
  "Invoke ''tailwind'' \<in> set known \<Longrightarrow> Invoke ''icon'' \<in> set known \<Longrightarrow>
   defineConfig known config_object = Inr config_object"
  by (simp add: defineConfig_def config_object_def is_absolute_url_site)

lemma split_at_append:
  "c \<notin> set k \<Longrightarrow> split_at c (k @ c # r) = Some (k, r)"
  by (induction k) auto

lemma split_at_None: "c \<notin> set s \<Longrightarrow> split_at c s = None"
  by (induction s) auto

lemma parse_entry_entry_line:
  "well_formed_entry kv \<Longrightarrow> parse_entry (entry_line kv) = Some kv"
  by (cases kv) (auto simp: well_formed_entry_def entry_line_def parse_entry_def split_at_append
      split: list.splits)

lemma entry_line_not_delimiter: "entry_line kv \<noteq> ''---''"
proof
  assume "entry_line kv = ''---''"
  then have "set (entry_line kv) = set ''---''" by simp
  moreover have "CHR '':'' \<in> set (entry_line kv)" by (simp add: entry_line_def)
  ultimately show False by simp
qed

lemma parse_entries_entry_lines:
  "list_all well_formed_entry kvs \<Longrightarrow>
   parse_entries (map entry_line kvs @ ''---'' # rest) = Some (kvs, rest)"
  by (induction kvs) (simp_all add: entry_line_not_delimiter parse_entry_entry_line)

lemma parse_front_matter_file:
  "list_all well_formed_entry kvs \<Longrightarrow>
   parse_front_matter (front_matter_file kvs markup) = Inr (kvs, markup)"
  by (simp add: parse_front_matter_def front_matter_file_def parse_entries_entry_lines)


lemma parse_front_matter_post:
  "parse_front_matter (post_file markup) =
     Inr ([(''title'', ''Collecting code coverage in Node.js''),
           (''layout'', ''../../layouts/PostLayout.astro''),
           (''pubDate'', ''November 2nd, 2024'')], markup)"
  by (simp add: parse_front_matter_def post_file_def post_front_matter_def parse_entry_def)

lemma post_file_shape:
  "post_file markup =
     front_matter_file [(''title'', ''Collecting code coverage in Node.js''),
           (''layout'', ''../../layouts/PostLayout.astro''),
           (''pubDate'', ''November 2nd, 2024'')] markup"
  by (simp add: post_file_def post_front_matter_def front_matter_file_def entry_line_def)

lemma resolve_all_failure:
  "resolve_all layouts before = Inr ds \<Longrightarrow> resolve layouts f = Inl e \<Longrightarrow>
   resolve_all layouts (before @ f # after) = Inl e"
  by (induction before arbitrary: ds) (auto split: sum.splits)

lemma resolve_all_some_failure:
  "resolve layouts f = Inl e \<Longrightarrow> \<exists>e'. resolve_all layouts (before @ f # after) = Inl e'"
  by (induction before) (auto split: sum.splits)






section \<open>The claims\<close>

subsection \<open>The content document resolver\<close>

text \<open>
  Claim C1. A content file whose front-matter block is well-formed and whose layout is in
  the layout registry resolves to one Content Document, and the front-matter of that
  document is, pair by pair and character for character, what the file holds: for a file
  written from the pairs \<open>kvs\<close> it is \<open>kvs\<close> itself, and for any file it is what the
  block reads as, with nothing added or replaced. The post of the repository, with any
  body, resolves to the title \<^verbatim>\<open>Collecting code coverage in Node.js\<close>, the layout
  \<^verbatim>\<open>../../layouts/PostLayout.astro\<close> and the date \<^verbatim>\<open>November 2nd, 2024\<close>, and one file
  gives one document.
\<close>

theorem resolve_front_matter_verbatim:
  "(list_all well_formed_entry kvs \<and> map_of kvs ''layout'' = Some l \<and> l \<in> set layouts \<longrightarrow>
      resolve layouts (front_matter_file kvs markup) =
        Inr \<lparr>frontMatter = kvs, body = markup\<rparr>) \<and>
   (parse_front_matter f = Inr (fm, rest) \<and> map_of fm ''layout'' = Some l \<and> l \<in> set layouts \<longrightarrow>
      resolve layouts f = Inr \<lparr>frontMatter = fm, body = rest\<rparr>) \<and>
   (''../../layouts/PostLayout.astro'' \<in> set layouts \<longrightarrow>
      resolve layouts (post_file markup) =
        Inr \<lparr>frontMatter =
               [(''title'', ''Collecting code coverage in Node.js''),
                (''layout'', ''../../layouts/PostLayout.astro''),
                (''pubDate'', ''November 2nd, 2024'')],
             body = markup\<rparr> \<and>
      (\<exists>d. resolve_all layouts [post_file markup] = Inr [d] \<and>
           map_of (frontMatter d) ''title'' = Some ''Collecting code coverage in Node.js'' \<and>
           map_of (frontMatter d) ''layout'' = Some ''../../layouts/PostLayout.astro'' \<and>
           map_of (frontMatter d) ''pubDate'' = Some ''November 2nd, 2024''))"
  by (simp add: resolve_def parse_front_matter_file parse_front_matter_post)

theorem resolve_front_matter_verbatim_witness:
  "list_all well_formed_entry
     [(''title'', ''Collecting code coverage in Node.js''),
      (''layout'', ''../../layouts/PostLayout.astro''),
      (''pubDate'', ''November 2nd, 2024'')] \<and>
   map_of
     [(''title'', ''Collecting code coverage in Node.js''),
      (''layout'', ''../../layouts/PostLayout.astro''),
      (''pubDate'', ''November 2nd, 2024'')] ''layout'' = Some ''../../layouts/PostLayout.astro'' \<and>
   ''../../layouts/PostLayout.astro'' \<in> set [''../../layouts/PostLayout.astro''] \<and>
   parse_front_matter (post_file ['''', ''# Collecting code coverage in Node.js'']) =
     Inr ([(''title'', ''Collecting code coverage in Node.js''),
           (''layout'', ''../../layouts/PostLayout.astro''),
           (''pubDate'', ''November 2nd, 2024'')],
          ['''', ''# Collecting code coverage in Node.js'']) \<and>
   resolve [''../../layouts/PostLayout.astro'']
     (front_matter_file
        [(''title'', ''Collecting code coverage in Node.js''),
         (''layout'', ''../../layouts/PostLayout.astro''),
         (''pubDate'', ''November 2nd, 2024'')]
        ['''', ''# Collecting code coverage in Node.js'']) =
     Inr \<lparr>frontMatter =
            [(''title'', ''Collecting code coverage in Node.js''),
             (''layout'', ''../../layouts/PostLayout.astro''),
             (''pubDate'', ''November 2nd, 2024'')],
          body = ['''', ''# Collecting code coverage in Node.js'']\<rparr> \<and>
   resolve [''../../layouts/PostLayout.astro'']
     (post_file ['''', ''# Collecting code coverage in Node.js'']) =
     Inr \<lparr>frontMatter =
            [(''title'', ''Collecting code coverage in Node.js''),
             (''layout'', ''../../layouts/PostLayout.astro''),
             (''pubDate'', ''November 2nd, 2024'')],
          body = ['''', ''# Collecting code coverage in Node.js'']\<rparr>"
proof -
  have w: "list_all well_formed_entry
     [(''title'', ''Collecting code coverage in Node.js''),
      (''layout'', ''../../layouts/PostLayout.astro''),
      (''pubDate'', ''November 2nd, 2024'')]"
    by (simp add: well_formed_entry_def)
  have p: "parse_front_matter (post_file ['''', ''# Collecting code coverage in Node.js'']) =
     Inr ([(''title'', ''Collecting code coverage in Node.js''),
           (''layout'', ''../../layouts/PostLayout.astro''),
           (''pubDate'', ''November 2nd, 2024'')],
          ['''', ''# Collecting code coverage in Node.js''])"
    by (simp add: parse_front_matter_def post_file_def post_front_matter_def parse_entry_def)
  show ?thesis
    using w p
      resolve_front_matter_verbatim
        [of "[(''title'', ''Collecting code coverage in Node.js''),
              (''layout'', ''../../layouts/PostLayout.astro''),
              (''pubDate'', ''November 2nd, 2024'')]"
            "''../../layouts/PostLayout.astro''"
            "[''../../layouts/PostLayout.astro'']"
            "['''', ''# Collecting code coverage in Node.js'']"
            "post_file ['''', ''# Collecting code coverage in Node.js'']"
            "[(''title'', ''Collecting code coverage in Node.js''),
              (''layout'', ''../../layouts/PostLayout.astro''),
              (''pubDate'', ''November 2nd, 2024'')]"
            "['''', ''# Collecting code coverage in Node.js'']"]
    by simp
qed

text \<open>
  Claim C7. A content file whose front-matter names a layout that is not in the layout
  registry does not resolve: the resolver fails with the missing-layout error, so no
  Content Document comes out, with a default layout or any other. The post of the
  repository fails in this way under every registry without its layout.
\<close>

theorem resolve_missing_layout:
  "(parse_front_matter f = Inr (fm, rest) \<and> map_of fm ''layout'' = Some l \<and> l \<notin> set layouts \<longrightarrow>
      resolve layouts f = Inl MissingLayoutError \<and> (\<forall>d. resolve layouts f \<noteq> Inr d)) \<and>
   (''../../layouts/PostLayout.astro'' \<notin> set layouts \<longrightarrow>
      resolve layouts (post_file markup) = Inl MissingLayoutError)"
  by (simp add: resolve_def parse_front_matter_post)

theorem resolve_missing_layout_witness:
  "parse_front_matter [''---'', ''title: Hello'', ''layout: PostLayout'', ''---'', ''text''] =
     Inr ([(''title'', ''Hello''), (''layout'', ''PostLayout'')], [''text'']) \<and>
   map_of [(''title'', ''Hello''), (''layout'', ''PostLayout'')] ''layout'' = Some ''PostLayout'' \<and>
   ''PostLayout'' \<notin> set [''BaseLayout''] \<and>
   ''../../layouts/PostLayout.astro'' \<notin> set [''BaseLayout''] \<and>
   resolve [''BaseLayout''] [''---'', ''title: Hello'', ''layout: PostLayout'', ''---'', ''text''] =
     Inl MissingLayoutError \<and>
   resolve [''BaseLayout''] (post_file [''text'']) = Inl MissingLayoutError"
proof -
  have p: "parse_front_matter [''---'', ''title: Hello'', ''layout: PostLayout'', ''---'', ''text''] =
     Inr ([(''title'', ''Hello''), (''layout'', ''PostLayout'')], [''text''])"
    by (simp add: parse_front_matter_def parse_entry_def)
  show ?thesis
    using p
      resolve_missing_layout
        [of "[''---'', ''title: Hello'', ''layout: PostLayout'', ''---'', ''text'']"
            "[(''title'', ''Hello''), (''layout'', ''PostLayout'')]" "[''text'']"
            "''PostLayout''" "[''BaseLayout'']" "[''text'']"]
    by simp
qed




subsection \<open>The configuration\<close>

text \<open>
  Claim C3, as amended. The record that the configuration file exports carries its base
  URL under the attribute \<^verbatim>\<open>site\<close>: its attributes are \<^verbatim>\<open>site\<close> and
  \<^verbatim>\<open>integrations\<close>, in this order, the value of \<^verbatim>\<open>site\<close> is the string
  \<^verbatim>\<open>https://redyeti.dev\<close>, and it has no attribute \<^verbatim>\<open>siteURL\<close>.
\<close>

theorem exported_site_attribute:
  "Invoke ''tailwind'' \<in> set known \<and> Invoke ''icon'' \<in> set known \<longrightarrow>
     astro_config known = Inr config_object \<and>
     map fst config_object = [''site'', ''integrations''] \<and>
     map_of config_object ''site'' = Some (Str ''https://redyeti.dev'') \<and>
     map_of config_object ''siteURL'' = None"
  by (simp add: astro_config_def defineConfig_config_object) (simp add: config_object_def)

theorem exported_site_attribute_witness:
  "Invoke ''tailwind'' \<in> set [Invoke ''tailwind'', Invoke ''icon''] \<and>
   Invoke ''icon'' \<in> set [Invoke ''tailwind'', Invoke ''icon''] \<and>
   astro_config [Invoke ''tailwind'', Invoke ''icon''] = Inr config_object \<and>
   map fst config_object = [''site'', ''integrations''] \<and>
   map_of config_object ''site'' = Some (Str ''https://redyeti.dev'')"
  using exported_site_attribute [of "[Invoke ''tailwind'', Invoke ''icon'']"] by simp

text \<open>
  Claim C3, as stated, fails: the exported record has no attribute named \<^verbatim>\<open>siteURL\<close>.
\<close>

theorem exported_siteURL_counterexample:
  "astro_config [Invoke ''tailwind'', Invoke ''icon''] = Inr config_object \<and>
   map_of config_object ''siteURL'' = None"
  by (simp add: astro_config_def defineConfig_config_object) (simp add: config_object_def)

text \<open>
  Claim C4. The site URL of the exported record is the string \<^verbatim>\<open>https://redyeti.dev\<close>,
  which is not empty and is a syntactically valid absolute URL.
\<close>

theorem exported_site_is_absolute_url:
  "site_of config_object = Some ''https://redyeti.dev'' \<and>
   ''https://redyeti.dev'' \<noteq> [] \<and>
   is_absolute_url ''https://redyeti.dev'' \<and>
   (Invoke ''tailwind'' \<in> set known \<and> Invoke ''icon'' \<in> set known \<longrightarrow>
      astro_config known = Inr config_object)"
  by (simp add: astro_config_def defineConfig_config_object is_absolute_url_site)
     (simp add: config_object_def site_of_def)

theorem exported_site_is_absolute_url_witness:
  "Invoke ''tailwind'' \<in> set [Invoke ''tailwind'', Invoke ''icon''] \<and>
   Invoke ''icon'' \<in> set [Invoke ''tailwind'', Invoke ''icon''] \<and>
   astro_config [Invoke ''tailwind'', Invoke ''icon''] = Inr config_object \<and>
   site_of config_object = Some ''https://redyeti.dev'' \<and>
   is_absolute_url ''https://redyeti.dev''"
  using exported_site_is_absolute_url [of "[Invoke ''tailwind'', Invoke ''icon'']"] by simp

text \<open>
  Claim C5. The loader accepts every valid configuration record and returns it as it is,
  so the integration list of the result is the one of the input, in the same order; and
  whatever the loader accepts, it returns unchanged. The record of the repository is
  valid when its two integrations are known, and its list comes out as
  \<^verbatim>\<open>[tailwind(), icon()]\<close>.
\<close>

theorem loader_identity:
  "(valid_config known cfg \<longrightarrow>
      defineConfig known cfg = Inr cfg \<and>
      (\<exists>c. defineConfig known cfg = Inr c \<and> integrations_of c = integrations_of cfg)) \<and>
   (defineConfig known cfg = Inr c' \<longrightarrow> c' = cfg) \<and>
   (Invoke ''tailwind'' \<in> set known \<and> Invoke ''icon'' \<in> set known \<longrightarrow>
      valid_config known config_object \<and>
      astro_config known = Inr config_object \<and>
      integrations_of config_object = Some [Invoke ''tailwind'', Invoke ''icon''])"
proof -
  have a: "valid_config known cfg \<longrightarrow> defineConfig known cfg = Inr cfg"
    by (auto simp: valid_config_def defineConfig_def site_of_def integrations_of_def
        split: option.splits field_value.splits)
  have b: "defineConfig known cfg = Inr c' \<longrightarrow> c' = cfg"
    by (auto simp: defineConfig_def split: option.splits field_value.splits if_splits)
  have c: "Invoke ''tailwind'' \<in> set known \<and> Invoke ''icon'' \<in> set known \<longrightarrow>
      valid_config known config_object \<and>
      astro_config known = Inr config_object \<and>
      integrations_of config_object = Some [Invoke ''tailwind'', Invoke ''icon'']"
    by (simp add: astro_config_def defineConfig_config_object)
       (simp add: valid_config_def site_of_def integrations_of_def config_object_def
          is_absolute_url_site)
  from a b c show ?thesis by simp
qed

theorem loader_identity_witness:
  "valid_config [Invoke ''tailwind'', Invoke ''icon''] config_object \<and>
   defineConfig [Invoke ''tailwind'', Invoke ''icon''] config_object = Inr config_object \<and>
   astro_config [Invoke ''tailwind'', Invoke ''icon''] = Inr config_object \<and>
   integrations_of config_object = Some [Invoke ''tailwind'', Invoke ''icon'']"
  using loader_identity [of "[Invoke ''tailwind'', Invoke ''icon'']" config_object config_object]
  by simp

text \<open>
  Claim C6. A configuration record without the field \<^verbatim>\<open>site\<close> makes the loader fail
  with the configuration error: no record is returned, and a build with it fails with
  this error whatever the content files are, those that would not resolve included, and
  emits no page.
\<close>

theorem loader_missing_site:
  "''site'' \<notin> set (map fst cfg) \<longrightarrow>
     defineConfig known cfg = Inl ConfigurationError \<and>
     (\<forall>c. defineConfig known cfg \<noteq> Inr c) \<and>
     build known layouts cfg files = Inl ConfigurationError \<and>
     emitted (build known layouts cfg files) = []"
proof
  assume "''site'' \<notin> set (map fst cfg)"
  then have "map_of cfg ''site'' = None" by (simp add: map_of_eq_None_iff)
  then have "defineConfig known cfg = Inl ConfigurationError" by (simp add: defineConfig_def)
  then show "defineConfig known cfg = Inl ConfigurationError \<and>
     (\<forall>c. defineConfig known cfg \<noteq> Inr c) \<and>
     build known layouts cfg files = Inl ConfigurationError \<and>
     emitted (build known layouts cfg files) = []"
    by (simp add: build_def emitted_def)
qed

theorem loader_missing_site_witness:
  "''site'' \<notin> set (map fst [(''integrations'', Integrations [Invoke ''tailwind'', Invoke ''icon''])]) \<and>
   defineConfig [Invoke ''tailwind'', Invoke ''icon'']
     [(''integrations'', Integrations [Invoke ''tailwind'', Invoke ''icon''])] =
     Inl ConfigurationError \<and>
   build [Invoke ''tailwind'', Invoke ''icon''] [''../../layouts/PostLayout.astro'']
     [(''integrations'', Integrations [Invoke ''tailwind'', Invoke ''icon''])]
     [post_file [''text''], [''---'', ''title: Hello'']] = Inl ConfigurationError"
  using loader_missing_site
    [of "[(''integrations'', Integrations [Invoke ''tailwind'', Invoke ''icon''])]"
        "[Invoke ''tailwind'', Invoke ''icon'']" "[''../../layouts/PostLayout.astro'']"
        "[post_file [''text''], [''---'', ''title: Hello'']]"]
  by simp

text \<open>
  Claim C9. The integration list of the exported record has two entries, the call of
  \<^verbatim>\<open>tailwind\<close> first and the call of \<^verbatim>\<open>icon\<close> second.
\<close>

theorem exported_integrations_order:
  "integrations_of config_object = Some [Invoke ''tailwind'', Invoke ''icon''] \<and>
   map_option length (integrations_of config_object) = Some 2 \<and>
   (Invoke ''tailwind'' \<in> set known \<and> Invoke ''icon'' \<in> set known \<longrightarrow>
      astro_config known = Inr config_object)"
  by (simp add: astro_config_def defineConfig_config_object)
     (simp add: config_object_def integrations_of_def)

theorem exported_integrations_order_witness:
  "Invoke ''tailwind'' \<in> set [Invoke ''tailwind'', Invoke ''icon''] \<and>
   Invoke ''icon'' \<in> set [Invoke ''tailwind'', Invoke ''icon''] \<and>
   astro_config [Invoke ''tailwind'', Invoke ''icon''] = Inr config_object \<and>
   integrations_of config_object = Some [Invoke ''tailwind'', Invoke ''icon'']"
  using exported_integrations_order [of "[Invoke ''tailwind'', Invoke ''icon'']"] by simp

subsection \<open>The front-matter block of the post\<close>

text \<open>
  Claim C10. The front-matter block of the post is its first five lines: a line
  \<^verbatim>\<open>---\<close>, three lines whose keys are \<^verbatim>\<open>title\<close>, \<^verbatim>\<open>layout\<close> and
  \<^verbatim>\<open>pubDate\<close>, each once and no other, and a line \<^verbatim>\<open>---\<close>; the block read from the
  file ends there and has these three keys.
\<close>

theorem post_front_matter_block:
  "post_file markup =
     ''---'' # ''title: Collecting code coverage in Node.js'' #
     ''layout: ../../layouts/PostLayout.astro'' # ''pubDate: November 2nd, 2024'' #
     ''---'' # markup \<and>
   map parse_entry
     [''title: Collecting code coverage in Node.js'',
      ''layout: ../../layouts/PostLayout.astro'', ''pubDate: November 2nd, 2024''] =
     [Some (''title'', ''Collecting code coverage in Node.js''),
      Some (''layout'', ''../../layouts/PostLayout.astro''),
      Some (''pubDate'', ''November 2nd, 2024'')] \<and>
   (\<exists>fm. parse_front_matter (post_file markup) = Inr (fm, markup) \<and>
      map fst fm = [''title'', ''layout'', ''pubDate''] \<and> distinct (map fst fm))"
  by (simp add: parse_front_matter_post)
     (simp add: post_file_def post_front_matter_def parse_entry_def)

end
